theory Spec2Isabelle
  imports Complex_Main "HOL-Library.AList"
begin

section \<open>Go float64 values\<close>

text \<open>
  The analysis code of \<^verbatim>\<open>api/server.go\<close> computes with Go \<^verbatim>\<open>float64\<close>. Go never
  panics on a floating-point division by zero: it yields an infinity or NaN, and NaN
  then propagates and compares false with everything. A float64 is modelled as an exact
  real extended by the three special values; rounding, overflow to infinity and the sign
  of zero are not modelled.

  A float64 variable of the source is given the type \<open>real\<close> when only sums, differences
  and products of the exchange's (finite) numbers flow into it, and the type \<open>float64\<close>
  when a division flows into it.
\<close>

datatype float64 = Fin real | PInf | NInf | NaN

fun fneg :: "float64 \<Rightarrow> float64" where
  "fneg (Fin a) = Fin (- a)"
| "fneg PInf = NInf"
| "fneg NInf = PInf"
| "fneg NaN = NaN"

fun fadd :: "float64 \<Rightarrow> float64 \<Rightarrow> float64" where
  "fadd NaN y = NaN"
| "fadd x NaN = NaN"
| "fadd (Fin a) (Fin b) = Fin (a + b)"
| "fadd PInf NInf = NaN"
| "fadd NInf PInf = NaN"
| "fadd PInf y = PInf"
| "fadd NInf y = NInf"
| "fadd (Fin a) y = y"

definition fsub :: "float64 \<Rightarrow> float64 \<Rightarrow> float64" where
  "fsub x y = fadd x (fneg y)"

definition inf_of_sign :: "real \<Rightarrow> float64" where
  "inf_of_sign a = (if a = 0 then NaN else if 0 < a then PInf else NInf)"

fun fmul :: "float64 \<Rightarrow> float64 \<Rightarrow> float64" where
  "fmul NaN y = NaN"
| "fmul x NaN = NaN"
| "fmul (Fin a) (Fin b) = Fin (a * b)"
| "fmul (Fin a) PInf = inf_of_sign a"
| "fmul (Fin a) NInf = inf_of_sign (- a)"
| "fmul PInf (Fin b) = inf_of_sign b"
| "fmul NInf (Fin b) = inf_of_sign (- b)"
| "fmul PInf PInf = PInf"
| "fmul NInf NInf = PInf"
| "fmul PInf NInf = NInf"
| "fmul NInf PInf = NInf"

fun fdiv :: "float64 \<Rightarrow> float64 \<Rightarrow> float64" where
  "fdiv NaN y = NaN"
| "fdiv x NaN = NaN"
| "fdiv (Fin a) (Fin b) = (if b = 0 then inf_of_sign a else Fin (a / b))"
| "fdiv (Fin a) y = Fin 0"
| "fdiv PInf (Fin b) = (if 0 \<le> b then PInf else NInf)"
| "fdiv NInf (Fin b) = (if 0 \<le> b then NInf else PInf)"
| "fdiv x y = NaN"

fun fsqrt :: "float64 \<Rightarrow> float64" where
  "fsqrt (Fin a) = (if a < 0 then NaN else Fin (sqrt a))"
| "fsqrt PInf = PInf"
| "fsqrt x = NaN"

fun fless :: "float64 \<Rightarrow> float64 \<Rightarrow> bool" where
  "fless NaN y = False"
| "fless x NaN = False"
| "fless (Fin a) (Fin b) = (a < b)"
| "fless x NInf = False"
| "fless PInf y = False"
| "fless x y = True"

fun feq :: "float64 \<Rightarrow> float64 \<Rightarrow> bool" where
  "feq (Fin a) (Fin b) = (a = b)"
| "feq PInf PInf = True"
| "feq NInf NInf = True"
| "feq x y = False"

section \<open>Rounding to binary64\<close>

text \<open>
  The exact reading above leaves rounding out. Where a statement depends on it, the
  functions of the analysis are given a second time further down, with the rounding of
  every float64 operation as a parameter \<open>rnd\<close>. The rounding of the program is
  \<open>r64\<close>: to the nearest binary64 number, ties to the even significand, with the
  subnormal numbers below \<open>2\<^sup>-\<^sup>1\<^sup>0\<^sup>2\<^sup>2\<close>. Overflow to infinity and the sign of zero
  are not modelled, and every operation is rounded on its own (as the compiler does on
  amd64; it may fuse a multiplication and an addition on other targets).

  \<open>expo a\<close> is the exponent of the binade of \<open>a > 0\<close>, not below -1022: the search
  goes up from 0 or down from -1. \<open>rne\<close> rounds to the nearest integer, ties to even.
\<close>

definition pow2 :: "int \<Rightarrow> real" where
  "pow2 k = (if 0 \<le> k then 2 ^ nat k else 1 / 2 ^ nat (- k))"

function expo_down :: "real \<Rightarrow> int \<Rightarrow> int" where
  "expo_down a e = (if e \<le> - 1022 \<or> pow2 e \<le> a then e else expo_down a (e - 1))"
  by pat_completeness auto
termination
  by (relation "measure (\<lambda>(a, e). nat (e + 1022))") auto

function expo_up :: "real \<Rightarrow> int \<Rightarrow> int" where
  "expo_up a e = (if 1023 \<le> e \<or> a < pow2 (e + 1) then e else expo_up a (e + 1))"
  by pat_completeness auto
termination
  by (relation "measure (\<lambda>(a, e). nat (1023 - e))") auto

definition expo :: "real \<Rightarrow> int" where
  "expo a = (if 1 \<le> a then expo_up a 0 else expo_down a (- 1))"

definition rne :: "real \<Rightarrow> int" where
  "rne y = (if y - of_int \<lfloor>y\<rfloor> < 1 / 2 then \<lfloor>y\<rfloor>
            else if 1 / 2 < y - of_int \<lfloor>y\<rfloor> then \<lfloor>y\<rfloor> + 1
            else if even \<lfloor>y\<rfloor> then \<lfloor>y\<rfloor> else \<lfloor>y\<rfloor> + 1)"

definition r64 :: "real \<Rightarrow> real" where
  "r64 x = (if x = 0 then 0
            else sgn x * of_int (rne (\<bar>x\<bar> / pow2 (expo \<bar>x\<bar> - 52))) * pow2 (expo \<bar>x\<bar> - 52))"

text \<open>An operation with rounding: the exact result, rounded when it is finite.\<close>

definition round_fin :: "(real \<Rightarrow> real) \<Rightarrow> float64 \<Rightarrow> float64" where
  "round_fin rnd z = (case z of Fin r \<Rightarrow> Fin (rnd r) | _ \<Rightarrow> z)"

definition fadd_rnd :: "(real \<Rightarrow> real) \<Rightarrow> float64 \<Rightarrow> float64 \<Rightarrow> float64" where
  "fadd_rnd rnd x y = round_fin rnd (fadd x y)"

definition fsub_rnd :: "(real \<Rightarrow> real) \<Rightarrow> float64 \<Rightarrow> float64 \<Rightarrow> float64" where
  "fsub_rnd rnd x y = round_fin rnd (fsub x y)"

definition fmul_rnd :: "(real \<Rightarrow> real) \<Rightarrow> float64 \<Rightarrow> float64 \<Rightarrow> float64" where
  "fmul_rnd rnd x y = round_fin rnd (fmul x y)"

definition fdiv_rnd :: "(real \<Rightarrow> real) \<Rightarrow> float64 \<Rightarrow> float64 \<Rightarrow> float64" where
  "fdiv_rnd rnd x y = round_fin rnd (fdiv x y)"

definition fsqrt_rnd :: "(real \<Rightarrow> real) \<Rightarrow> float64 \<Rightarrow> float64" where
  "fsqrt_rnd rnd x = round_fin rnd (fsqrt x)"

text \<open>Go's int64 arithmetic wraps around.\<close>

definition wrap64 :: "int \<Rightarrow> int" where
  "wrap64 x = (x + 2 ^ 63) mod 2 ^ 64 - 2 ^ 63"

section \<open>Trade reconstruction (analyzePerformanceFromBinance)\<close>

text \<open>
  A fill as the loop reads it (the fields of \<^verbatim>\<open>trader.TradeRecord\<close> the function uses).
  Timestamps are milliseconds.
\<close>

record TradeRecord =
  Side :: string
  PositionSide :: string
  Price :: real
  Qty :: real
  RealizedPnl :: real
  Commission :: real
  Time :: int

text \<open>The function-local accumulator \<^verbatim>\<open>type Position struct\<close>.\<close>

record Position =
  openPrice :: real
  openTime :: int
  totalQty :: real
  totalCost :: real
  realizedPnl :: real
  commission :: real
  tradeCount :: int

text \<open>Go's zero value \<^verbatim>\<open>Position{}\<close>.\<close>

definition Position0 :: Position where
  "Position0 = \<lparr>openPrice = 0, openTime = 0, totalQty = 0, totalCost = 0,
     realizedPnl = 0, commission = 0, tradeCount = 0\<rparr>"

text \<open>
  \<^verbatim>\<open>logger.TradeOutcome\<close>, with the fields the function fills (\<open>TradeSide\<close> is its
  field \<^verbatim>\<open>Side\<close>). \<open>Duration\<close> holds the nanosecond count of the \<^verbatim>\<open>time.Duration\<close>
  (its rendering as a string is not modelled); \<open>OpenTime\<close> and \<open>CloseTime\<close> hold the
  milliseconds given to \<^verbatim>\<open>time.UnixMilli\<close>. The int64 arithmetic on timestamps is
  taken unbounded: a span in nanoseconds wraps only beyond 292 years.
\<close>

record TradeOutcome =
  Symbol :: string
  TradeSide :: string
  Quantity :: real
  Leverage :: int
  OpenPrice :: float64
  ClosePrice :: real
  PositionValue :: float64
  MarginUsed :: float64
  PnL :: real
  PnLPct :: float64
  Duration :: int
  OpenTime :: int
  CloseTime :: int

text \<open>
  \<^verbatim>\<open>logger.SymbolPerformance\<close> and \<^verbatim>\<open>logger.PerformanceAnalysis\<close>, with the fields the
  function uses; the fields of the former carry the prefix \<open>Sym\<close>. The map
  \<^verbatim>\<open>SymbolStats\<close> holds pointers that are reached through the map only, so the entries
  are held by value. The counters are Go \<^verbatim>\<open>int\<close>s that count outcomes of a slice and
  cannot wrap; they are taken unbounded, as is the fill counter of the accumulator.
\<close>

record SymbolPerformance =
  SymSymbol :: string
  SymTotalTrades :: int
  SymWinningTrades :: int
  SymLosingTrades :: int
  SymTotalPnL :: real
  SymAvgPnL :: float64
  SymWinRate :: float64

record PerformanceAnalysis =
  RecentTrades :: "TradeOutcome list"
  TotalTrades :: int
  WinningTrades :: int
  LosingTrades :: int
  AvgWin :: float64
  AvgLoss :: float64
  WinRate :: float64
  ProfitFactor :: float64
  SharpeRatio :: float64
  SymbolStats :: "string \<rightharpoonup> SymbolPerformance"

definition analysis0 :: PerformanceAnalysis where
  "analysis0 = \<lparr>RecentTrades = [], TotalTrades = 0, WinningTrades = 0, LosingTrades = 0,
     AvgWin = Fin 0, AvgLoss = Fin 0, WinRate = Fin 0, ProfitFactor = Fin 0,
     SharpeRatio = Fin 0, SymbolStats = Map.empty\<rparr>"

definition SymbolPerformance0 :: "string \<Rightarrow> SymbolPerformance" where
  "SymbolPerformance0 symbol = \<lparr>SymSymbol = symbol, SymTotalTrades = 0,
     SymWinningTrades = 0, SymLosingTrades = 0, SymTotalPnL = 0, SymAvgPnL = Fin 0,
     SymWinRate = Fin 0\<rparr>"

text \<open>The opening test of the loop body.\<close>

definition is_opening :: "TradeRecord \<Rightarrow> bool" where
  "is_opening trade \<longleftrightarrow>
     Side trade = ''BUY'' \<and> PositionSide trade = ''LONG'' \<or>
     Side trade = ''SELL'' \<and> PositionSide trade = ''SHORT''"

text \<open>The hard-coded \<^verbatim>\<open>leverage := 5\<close>.\<close>

definition default_leverage :: int where
  "default_leverage = 5"

text \<open>
  \<^verbatim>\<open>strings.ToLower(trade.PositionSide)\<close>: at this point of the loop the position
  side is one of the two literals.
\<close>

definition lower_side :: "string \<Rightarrow> string" where
  "lower_side s = (if s = ''LONG'' then ''long'' else if s = ''SHORT'' then ''short'' else s)"

text \<open>
  The outcome built when a position closes. \<open>pos\<close> is the accumulator after the closing
  fill has been subtracted, as in the source.
\<close>

definition make_outcome :: "string \<Rightarrow> Position \<Rightarrow> TradeRecord \<Rightarrow> TradeOutcome" where
  "make_outcome symbol pos trade =
     (let avgOpenPrice = fdiv (Fin (totalCost pos)) (Fin (totalQty pos + Qty trade));
          duration = (Time trade - openTime pos) * 1000000;
          quantity = totalQty pos + Qty trade;
          positionValue = fmul avgOpenPrice (Fin quantity);
          leverage = default_leverage;
          marginUsed = fdiv positionValue (Fin (real_of_int leverage))
      in \<lparr>Symbol = symbol,
          TradeSide = lower_side (PositionSide trade),
          Quantity = quantity,
          Leverage = leverage,
          OpenPrice = avgOpenPrice,
          ClosePrice = Price trade,
          PositionValue = positionValue,
          MarginUsed = marginUsed,
          PnL = realizedPnl pos - commission pos,
          PnLPct = fmul (fdiv (Fin (realizedPnl pos - commission pos)) marginUsed) (Fin 100),
          Duration = duration,
          OpenTime = openTime pos,
          CloseTime = Time trade\<rparr>)"

text \<open>Appending an outcome and updating the running totals and the symbol's entry.\<close>

definition record_outcome :: "PerformanceAnalysis \<Rightarrow> string \<Rightarrow> TradeOutcome \<Rightarrow> PerformanceAnalysis" where
  "record_outcome a symbol outcome =
     (let a1 = a\<lparr>RecentTrades := RecentTrades a @ [outcome],
                  TotalTrades := TotalTrades a + 1\<rparr>;
          a2 = (if 0 < PnL outcome
                then a1\<lparr>WinningTrades := WinningTrades a1 + 1,
                        AvgWin := fadd (AvgWin a1) (Fin (PnL outcome))\<rparr>
                else if PnL outcome < 0
                then a1\<lparr>LosingTrades := LosingTrades a1 + 1,
                        AvgLoss := fadd (AvgLoss a1) (Fin (PnL outcome))\<rparr>
                else a1);
          stats = (case SymbolStats a2 symbol of
                     None \<Rightarrow> SymbolPerformance0 symbol
                   | Some s \<Rightarrow> s);
          stats1 = stats\<lparr>SymTotalTrades := SymTotalTrades stats + 1,
                         SymTotalPnL := SymTotalPnL stats + PnL outcome\<rparr>;
          stats2 = (if 0 < PnL outcome
                    then stats1\<lparr>SymWinningTrades := SymWinningTrades stats1 + 1\<rparr>
                    else if PnL outcome < 0
                    then stats1\<lparr>SymLosingTrades := SymLosingTrades stats1 + 1\<rparr>
                    else stats1)
      in a2\<lparr>SymbolStats := (SymbolStats a2)(symbol \<mapsto> stats2)\<rparr>)"

text \<open>
  One fill applied to the accumulator \<open>pos\<close> points to. The result is the analysis and
  the accumulator after the fill.
\<close>

definition step_pos ::
  "string \<Rightarrow> PerformanceAnalysis \<Rightarrow> Position \<Rightarrow> TradeRecord \<Rightarrow> PerformanceAnalysis \<times> Position" where
  "step_pos symbol a pos trade =
     (if is_opening trade
      then (a, pos\<lparr>openTime := (if totalQty pos = 0 then Time trade else openTime pos),
                   totalCost := totalCost pos + Price trade * Qty trade,
                   totalQty := totalQty pos + Qty trade,
                   tradeCount := tradeCount pos + 1\<rparr>)
      else
        (let pos1 = pos\<lparr>realizedPnl := realizedPnl pos + RealizedPnl trade,
                        commission := commission pos + Commission trade,
                        totalQty := totalQty pos - Qty trade,
                        tradeCount := tradeCount pos + 1\<rparr>
         in if totalQty pos1 \<le> 0.0001 \<and> 0 < tradeCount pos1
            then (record_outcome a symbol (make_outcome symbol pos1 trade), Position0)
            else (a, pos1)))"

text \<open>
  The loop body: \<open>pos\<close> aliases \<open>longPos\<close> or \<open>shortPos\<close>; a fill of any other position
  side is skipped.
\<close>

definition process_trade ::
  "string \<Rightarrow> PerformanceAnalysis \<times> Position \<times> Position \<Rightarrow> TradeRecord
     \<Rightarrow> PerformanceAnalysis \<times> Position \<times> Position" where
  "process_trade symbol st trade =
     (case st of (a, longPos, shortPos) \<Rightarrow>
        if PositionSide trade = ''LONG''
        then (case step_pos symbol a longPos trade of (a', p) \<Rightarrow> (a', p, shortPos))
        else if PositionSide trade = ''SHORT''
        then (case step_pos symbol a shortPos trade of (a', p) \<Rightarrow> (a', longPos, p))
        else st)"

fun process_trades ::
  "string \<Rightarrow> PerformanceAnalysis \<times> Position \<times> Position \<Rightarrow> TradeRecord list
     \<Rightarrow> PerformanceAnalysis \<times> Position \<times> Position" where
  "process_trades symbol st [] = st"
| "process_trades symbol st (trade # trades) =
     process_trades symbol (process_trade symbol st trade) trades"

text \<open>One symbol of the history: fresh accumulators, all its fills in order.\<close>

definition analyze_symbol ::
  "PerformanceAnalysis \<Rightarrow> string \<times> TradeRecord list \<Rightarrow> PerformanceAnalysis" where
  "analyze_symbol a entry =
     (case entry of (symbol, trades) \<Rightarrow>
        if trades = [] then a
        else fst (process_trades symbol (a, Position0, Position0) trades))"

text \<open>
  The outer loop ranges over a Go map, in an order the language leaves open: the
  history is given as the list of its entries in the order the iteration visits them.
\<close>

fun reconstruct ::
  "PerformanceAnalysis \<Rightarrow> (string \<times> TradeRecord list) list \<Rightarrow> PerformanceAnalysis" where
  "reconstruct a [] = a"
| "reconstruct a (entry # history) = reconstruct (analyze_symbol a entry) history"

section \<open>Statistics (analyzePerformanceFromBinance, after the reconstruction loop)\<close>

text \<open>The three guarded divisions: average win, average loss, win rate.\<close>

definition finalize_averages :: "PerformanceAnalysis \<Rightarrow> PerformanceAnalysis" where
  "finalize_averages a =
     (let a1 = (if 0 < WinningTrades a
                then a\<lparr>AvgWin := fdiv (AvgWin a) (Fin (real_of_int (WinningTrades a)))\<rparr>
                else a);
          a2 = (if 0 < LosingTrades a1
                then a1\<lparr>AvgLoss := fdiv (AvgLoss a1) (Fin (real_of_int (LosingTrades a1)))\<rparr>
                else a1)
      in if 0 < TotalTrades a2
         then a2\<lparr>WinRate := fmul (fdiv (Fin (real_of_int (WinningTrades a2)))
                                       (Fin (real_of_int (TotalTrades a2)))) (Fin 100)\<rparr>
         else a2)"

text \<open>The profit factor; Go's \<^verbatim>\<open>!=\<close> on floats is the negation of \<^verbatim>\<open>==\<close>.\<close>

definition profit_factor_step :: "PerformanceAnalysis \<Rightarrow> PerformanceAnalysis" where
  "profit_factor_step a =
     (if \<not> feq (AvgLoss a) (Fin 0) \<and> 0 < LosingTrades a
      then (let pf = fdiv (AvgWin a) (fneg (AvgLoss a))
            in a\<lparr>ProfitFactor := (if fless (Fin 100) pf then Fin 100 else pf)\<rparr>)
      else if 0 < WinningTrades a \<and> LosingTrades a = 0
      then a\<lparr>ProfitFactor := Fin 100\<rparr>
      else a\<lparr>ProfitFactor := Fin 0\<rparr>)"

text \<open>
  The return of one trade in the Sharpe loop: the pair of \<^verbatim>\<open>returnRate\<close> and
  \<^verbatim>\<open>baseValue\<close> at the end of the if-chain (both start as 0).
\<close>

definition trade_return :: "TradeOutcome \<Rightarrow> float64 \<times> float64" where
  "trade_return trade =
     (if fless (Fin 0) (MarginUsed trade)
      then (fdiv (Fin (PnL trade)) (MarginUsed trade), MarginUsed trade)
      else if fless (Fin 0) (PositionValue trade)
      then (fdiv (Fin (PnL trade)) (PositionValue trade), PositionValue trade)
      else if fless (Fin 0) (OpenPrice trade) \<and> 0 < Quantity trade
      then (let b0 = fmul (OpenPrice trade) (Fin (Quantity trade));
                baseValue = (if 0 < Leverage trade
                             then fdiv b0 (Fin (real_of_int (Leverage trade)))
                             else b0)
            in if fless (Fin 0) baseValue
               then (fdiv (Fin (PnL trade)) baseValue, baseValue)
               else (Fin 0, baseValue))
      else (Fin 0, Fin 0))"

fun collect_returns :: "float64 list \<Rightarrow> TradeOutcome list \<Rightarrow> float64 list" where
  "collect_returns returns [] = returns"
| "collect_returns returns (trade # trades) =
     (case trade_return trade of (returnRate, baseValue) \<Rightarrow>
        if fless (Fin 0) baseValue
        then collect_returns (returns @ [returnRate]) trades
        else collect_returns returns trades)"

fun sum_returns :: "float64 \<Rightarrow> float64 list \<Rightarrow> float64" where
  "sum_returns sumReturns [] = sumReturns"
| "sum_returns sumReturns (r # rs) = sum_returns (fadd sumReturns r) rs"

fun sum_squared_diff :: "float64 \<Rightarrow> float64 \<Rightarrow> float64 list \<Rightarrow> float64" where
  "sum_squared_diff avgReturn sumSquaredDiff [] = sumSquaredDiff"
| "sum_squared_diff avgReturn sumSquaredDiff (r # rs) =
     (let diff = fsub r avgReturn
      in sum_squared_diff avgReturn (fadd sumSquaredDiff (fmul diff diff)) rs)"

definition sharpe_of_returns :: "float64 \<Rightarrow> float64 list \<Rightarrow> float64" where
  "sharpe_of_returns old returns =
     (if 2 \<le> length returns
      then (let sumReturns = sum_returns (Fin 0) returns;
                avgReturn = fdiv sumReturns (Fin (real (length returns)));
                sumSquaredDiff = sum_squared_diff avgReturn (Fin 0) returns;
                stdDev = fsqrt (fdiv sumSquaredDiff (Fin (real (length returns))))
            in if fless (Fin 0) stdDev
               then (let s = fdiv avgReturn stdDev
                     in if fless (Fin 3) s then Fin 3
                        else if fless s (Fin (- 3)) then Fin (- 3)
                        else s)
               else old)
      else old)"

definition sharpe_step :: "PerformanceAnalysis \<Rightarrow> PerformanceAnalysis" where
  "sharpe_step a =
     (if 2 \<le> length (RecentTrades a)
      then a\<lparr>SharpeRatio :=
               sharpe_of_returns (SharpeRatio a) (collect_returns [] (RecentTrades a))\<rparr>
      else a)"

text \<open>The closing loop over the per-symbol entries.\<close>

definition finalize_symbol :: "SymbolPerformance \<Rightarrow> SymbolPerformance" where
  "finalize_symbol stats =
     (if 0 < SymTotalTrades stats
      then stats\<lparr>SymWinRate := fmul (fdiv (Fin (real_of_int (SymWinningTrades stats)))
                                         (Fin (real_of_int (SymTotalTrades stats)))) (Fin 100),
                 SymAvgPnL := fdiv (Fin (SymTotalPnL stats))
                                   (Fin (real_of_int (SymTotalTrades stats)))\<rparr>
      else stats)"

definition finalize_symbols :: "PerformanceAnalysis \<Rightarrow> PerformanceAnalysis" where
  "finalize_symbols a =
     a\<lparr>SymbolStats := (\<lambda>symbol. map_option finalize_symbol (SymbolStats a symbol))\<rparr>"

text \<open>
  The whole function on a fetched trade history (the type assertion and the fetch, the
  two places it can return an error, happen before).
\<close>

definition analyzePerformanceFromBinance ::
  "(string \<times> TradeRecord list) list \<Rightarrow> PerformanceAnalysis" where
  "analyzePerformanceFromBinance tradeHistory =
     finalize_symbols (sharpe_step (profit_factor_step (finalize_averages
       (reconstruct analysis0 tradeHistory))))"

section \<open>The analysis with rounding\<close>

text \<open>
  analyzePerformanceFromBinance once more, statement by statement as above, with every
  float64 operation rounded by \<open>rnd\<close>. The constant 0.0001 of the source is the float64
  nearest to it, \<open>rnd (1 / 10000)\<close>; the other constants (5, 100, 3) and the
  conversions of the counters are exact. The duration is computed in int64: both the
  difference of the timestamps and its product with the nanoseconds of a millisecond
  wrap.
\<close>

definition make_outcome_rnd ::
  "(real \<Rightarrow> real) \<Rightarrow> string \<Rightarrow> Position \<Rightarrow> TradeRecord \<Rightarrow> TradeOutcome" where
  "make_outcome_rnd rnd symbol pos trade =
     (let avgOpenPrice = fdiv_rnd rnd (Fin (totalCost pos)) (Fin (rnd (totalQty pos + Qty trade)));
          duration = wrap64 (wrap64 (Time trade - openTime pos) * 1000000);
          quantity = rnd (totalQty pos + Qty trade);
          positionValue = fmul_rnd rnd avgOpenPrice (Fin quantity);
          leverage = default_leverage;
          marginUsed = fdiv_rnd rnd positionValue (Fin (real_of_int leverage))
      in \<lparr>Symbol = symbol,
          TradeSide = lower_side (PositionSide trade),
          Quantity = quantity,
          Leverage = leverage,
          OpenPrice = avgOpenPrice,
          ClosePrice = Price trade,
          PositionValue = positionValue,
          MarginUsed = marginUsed,
          PnL = rnd (realizedPnl pos - commission pos),
          PnLPct = fmul_rnd rnd
                     (fdiv_rnd rnd (Fin (rnd (realizedPnl pos - commission pos))) marginUsed)
                     (Fin 100),
          Duration = duration,
          OpenTime = openTime pos,
          CloseTime = Time trade\<rparr>)"

definition record_outcome_rnd ::
  "(real \<Rightarrow> real) \<Rightarrow> PerformanceAnalysis \<Rightarrow> string \<Rightarrow> TradeOutcome \<Rightarrow> PerformanceAnalysis" where
  "record_outcome_rnd rnd a symbol outcome =
     (let a1 = a\<lparr>RecentTrades := RecentTrades a @ [outcome],
                  TotalTrades := TotalTrades a + 1\<rparr>;
          a2 = (if 0 < PnL outcome
                then a1\<lparr>WinningTrades := WinningTrades a1 + 1,
                        AvgWin := fadd_rnd rnd (AvgWin a1) (Fin (PnL outcome))\<rparr>
                else if PnL outcome < 0
                then a1\<lparr>LosingTrades := LosingTrades a1 + 1,
                        AvgLoss := fadd_rnd rnd (AvgLoss a1) (Fin (PnL outcome))\<rparr>
                else a1);
          stats = (case SymbolStats a2 symbol of
                     None \<Rightarrow> SymbolPerformance0 symbol
                   | Some s \<Rightarrow> s);
          stats1 = stats\<lparr>SymTotalTrades := SymTotalTrades stats + 1,
                         SymTotalPnL := rnd (SymTotalPnL stats + PnL outcome)\<rparr>;
          stats2 = (if 0 < PnL outcome
                    then stats1\<lparr>SymWinningTrades := SymWinningTrades stats1 + 1\<rparr>
                    else if PnL outcome < 0
                    then stats1\<lparr>SymLosingTrades := SymLosingTrades stats1 + 1\<rparr>
                    else stats1)
      in a2\<lparr>SymbolStats := (SymbolStats a2)(symbol \<mapsto> stats2)\<rparr>)"

definition step_pos_rnd ::
  "(real \<Rightarrow> real) \<Rightarrow> string \<Rightarrow> PerformanceAnalysis \<Rightarrow> Position \<Rightarrow> TradeRecord
     \<Rightarrow> PerformanceAnalysis \<times> Position" where
  "step_pos_rnd rnd symbol a pos trade =
     (if is_opening trade
      then (a, pos\<lparr>openTime := (if totalQty pos = 0 then Time trade else openTime pos),
                   totalCost := rnd (totalCost pos + rnd (Price trade * Qty trade)),
                   totalQty := rnd (totalQty pos + Qty trade),
                   tradeCount := tradeCount pos + 1\<rparr>)
      else
        (let pos1 = pos\<lparr>realizedPnl := rnd (realizedPnl pos + RealizedPnl trade),
                        commission := rnd (commission pos + Commission trade),
                        totalQty := rnd (totalQty pos - Qty trade),
                        tradeCount := tradeCount pos + 1\<rparr>
         in if totalQty pos1 \<le> rnd (1 / 10000) \<and> 0 < tradeCount pos1
            then (record_outcome_rnd rnd a symbol (make_outcome_rnd rnd symbol pos1 trade),
                  Position0)
            else (a, pos1)))"

definition process_trade_rnd ::
  "(real \<Rightarrow> real) \<Rightarrow> string \<Rightarrow> PerformanceAnalysis \<times> Position \<times> Position \<Rightarrow> TradeRecord
     \<Rightarrow> PerformanceAnalysis \<times> Position \<times> Position" where
  "process_trade_rnd rnd symbol st trade =
     (case st of (a, longPos, shortPos) \<Rightarrow>
        if PositionSide trade = ''LONG''
        then (case step_pos_rnd rnd symbol a longPos trade of (a', p) \<Rightarrow> (a', p, shortPos))
        else if PositionSide trade = ''SHORT''
        then (case step_pos_rnd rnd symbol a shortPos trade of (a', p) \<Rightarrow> (a', longPos, p))
        else st)"

fun process_trades_rnd ::
  "(real \<Rightarrow> real) \<Rightarrow> string \<Rightarrow> PerformanceAnalysis \<times> Position \<times> Position \<Rightarrow> TradeRecord list
     \<Rightarrow> PerformanceAnalysis \<times> Position \<times> Position" where
  "process_trades_rnd rnd symbol st [] = st"
| "process_trades_rnd rnd symbol st (trade # trades) =
     process_trades_rnd rnd symbol (process_trade_rnd rnd symbol st trade) trades"

definition analyze_symbol_rnd ::
  "(real \<Rightarrow> real) \<Rightarrow> PerformanceAnalysis \<Rightarrow> string \<times> TradeRecord list \<Rightarrow> PerformanceAnalysis" where
  "analyze_symbol_rnd rnd a entry =
     (case entry of (symbol, trades) \<Rightarrow>
        if trades = [] then a
        else fst (process_trades_rnd rnd symbol (a, Position0, Position0) trades))"

fun reconstruct_rnd ::
  "(real \<Rightarrow> real) \<Rightarrow> PerformanceAnalysis \<Rightarrow> (string \<times> TradeRecord list) list
     \<Rightarrow> PerformanceAnalysis" where
  "reconstruct_rnd rnd a [] = a"
| "reconstruct_rnd rnd a (entry # history) =
     reconstruct_rnd rnd (analyze_symbol_rnd rnd a entry) history"

definition finalize_averages_rnd :: "(real \<Rightarrow> real) \<Rightarrow> PerformanceAnalysis \<Rightarrow> PerformanceAnalysis" where
  "finalize_averages_rnd rnd a =
     (let a1 = (if 0 < WinningTrades a
                then a\<lparr>AvgWin := fdiv_rnd rnd (AvgWin a) (Fin (real_of_int (WinningTrades a)))\<rparr>
                else a);
          a2 = (if 0 < LosingTrades a1
                then a1\<lparr>AvgLoss := fdiv_rnd rnd (AvgLoss a1) (Fin (real_of_int (LosingTrades a1)))\<rparr>
                else a1)
      in if 0 < TotalTrades a2
         then a2\<lparr>WinRate := fmul_rnd rnd
                               (fdiv_rnd rnd (Fin (real_of_int (WinningTrades a2)))
                                  (Fin (real_of_int (TotalTrades a2)))) (Fin 100)\<rparr>
         else a2)"

definition profit_factor_step_rnd :: "(real \<Rightarrow> real) \<Rightarrow> PerformanceAnalysis \<Rightarrow> PerformanceAnalysis" where
  "profit_factor_step_rnd rnd a =
     (if \<not> feq (AvgLoss a) (Fin 0) \<and> 0 < LosingTrades a
      then (let pf = fdiv_rnd rnd (AvgWin a) (fneg (AvgLoss a))
            in a\<lparr>ProfitFactor := (if fless (Fin 100) pf then Fin 100 else pf)\<rparr>)
      else if 0 < WinningTrades a \<and> LosingTrades a = 0
      then a\<lparr>ProfitFactor := Fin 100\<rparr>
      else a\<lparr>ProfitFactor := Fin 0\<rparr>)"

definition trade_return_rnd :: "(real \<Rightarrow> real) \<Rightarrow> TradeOutcome \<Rightarrow> float64 \<times> float64" where
  "trade_return_rnd rnd trade =
     (if fless (Fin 0) (MarginUsed trade)
      then (fdiv_rnd rnd (Fin (PnL trade)) (MarginUsed trade), MarginUsed trade)
      else if fless (Fin 0) (PositionValue trade)
      then (fdiv_rnd rnd (Fin (PnL trade)) (PositionValue trade), PositionValue trade)
      else if fless (Fin 0) (OpenPrice trade) \<and> 0 < Quantity trade
      then (let b0 = fmul_rnd rnd (OpenPrice trade) (Fin (Quantity trade));
                baseValue = (if 0 < Leverage trade
                             then fdiv_rnd rnd b0 (Fin (real_of_int (Leverage trade)))
                             else b0)
            in if fless (Fin 0) baseValue
               then (fdiv_rnd rnd (Fin (PnL trade)) baseValue, baseValue)
               else (Fin 0, baseValue))
      else (Fin 0, Fin 0))"

fun collect_returns_rnd :: "(real \<Rightarrow> real) \<Rightarrow> float64 list \<Rightarrow> TradeOutcome list \<Rightarrow> float64 list" where
  "collect_returns_rnd rnd returns [] = returns"
| "collect_returns_rnd rnd returns (trade # trades) =
     (case trade_return_rnd rnd trade of (returnRate, baseValue) \<Rightarrow>
        if fless (Fin 0) baseValue
        then collect_returns_rnd rnd (returns @ [returnRate]) trades
        else collect_returns_rnd rnd returns trades)"

fun sum_returns_rnd :: "(real \<Rightarrow> real) \<Rightarrow> float64 \<Rightarrow> float64 list \<Rightarrow> float64" where
  "sum_returns_rnd rnd sumReturns [] = sumReturns"
| "sum_returns_rnd rnd sumReturns (r # rs) = sum_returns_rnd rnd (fadd_rnd rnd sumReturns r) rs"

fun sum_squared_diff_rnd ::
  "(real \<Rightarrow> real) \<Rightarrow> float64 \<Rightarrow> float64 \<Rightarrow> float64 list \<Rightarrow> float64" where
  "sum_squared_diff_rnd rnd avgReturn sumSquaredDiff [] = sumSquaredDiff"
| "sum_squared_diff_rnd rnd avgReturn sumSquaredDiff (r # rs) =
     (let diff = fsub_rnd rnd r avgReturn
      in sum_squared_diff_rnd rnd avgReturn
           (fadd_rnd rnd sumSquaredDiff (fmul_rnd rnd diff diff)) rs)"

definition sharpe_of_returns_rnd :: "(real \<Rightarrow> real) \<Rightarrow> float64 \<Rightarrow> float64 list \<Rightarrow> float64" where
  "sharpe_of_returns_rnd rnd old returns =
     (if 2 \<le> length returns
      then (let sumReturns = sum_returns_rnd rnd (Fin 0) returns;
                avgReturn = fdiv_rnd rnd sumReturns (Fin (real (length returns)));
                sumSquaredDiff = sum_squared_diff_rnd rnd avgReturn (Fin 0) returns;
                stdDev = fsqrt_rnd rnd (fdiv_rnd rnd sumSquaredDiff (Fin (real (length returns))))
            in if fless (Fin 0) stdDev
               then (let s = fdiv_rnd rnd avgReturn stdDev
                     in if fless (Fin 3) s then Fin 3
                        else if fless s (Fin (- 3)) then Fin (- 3)
                        else s)
               else old)
      else old)"

definition sharpe_step_rnd :: "(real \<Rightarrow> real) \<Rightarrow> PerformanceAnalysis \<Rightarrow> PerformanceAnalysis" where
  "sharpe_step_rnd rnd a =
     (if 2 \<le> length (RecentTrades a)
      then a\<lparr>SharpeRatio :=
               sharpe_of_returns_rnd rnd (SharpeRatio a)
                 (collect_returns_rnd rnd [] (RecentTrades a))\<rparr>
      else a)"

definition finalize_symbol_rnd :: "(real \<Rightarrow> real) \<Rightarrow> SymbolPerformance \<Rightarrow> SymbolPerformance" where
  "finalize_symbol_rnd rnd stats =
     (if 0 < SymTotalTrades stats
      then stats\<lparr>SymWinRate := fmul_rnd rnd
                                  (fdiv_rnd rnd (Fin (real_of_int (SymWinningTrades stats)))
                                     (Fin (real_of_int (SymTotalTrades stats)))) (Fin 100),
                 SymAvgPnL := fdiv_rnd rnd (Fin (SymTotalPnL stats))
                                (Fin (real_of_int (SymTotalTrades stats)))\<rparr>
      else stats)"

definition finalize_symbols_rnd :: "(real \<Rightarrow> real) \<Rightarrow> PerformanceAnalysis \<Rightarrow> PerformanceAnalysis" where
  "finalize_symbols_rnd rnd a =
     a\<lparr>SymbolStats := (\<lambda>symbol. map_option (finalize_symbol_rnd rnd) (SymbolStats a symbol))\<rparr>"

definition analyzePerformanceFromBinance_rnd ::
  "(real \<Rightarrow> real) \<Rightarrow> (string \<times> TradeRecord list) list \<Rightarrow> PerformanceAnalysis" where
  "analyzePerformanceFromBinance_rnd rnd tradeHistory =
     finalize_symbols_rnd rnd (sharpe_step_rnd rnd (profit_factor_step_rnd rnd
       (finalize_averages_rnd rnd (reconstruct_rnd rnd analysis0 tradeHistory))))"

section \<open>The combined-streams client (market/combined\_streams.go)\<close>

text \<open>
  A buffered Go channel of payloads, seen from the sending side: its queue and its
  capacity. A non-blocking send enqueues when there is room. (A send can also hand its
  value to a receiver parked on an empty channel; with a capacity above 0 an empty
  channel has room anyway, so the queue decides.)
\<close>

record chan =
  buf :: "string list"
  cap :: nat

text \<open>
  The client. \<open>conn\<close> is the socket handle (\<open>None\<close> for nil), \<open>done_closed\<close> says
  whether the channel \<open>done\<close> has been closed. A channel is created by AddSubscriber
  for one key and never shared, so the registry holds the channels by value.

  The goroutines of the client are run one after the other. \<open>readers\<close> is not a field
  of the Go struct: it counts the read loops (goroutines running readMessages) that have
  been started and have not returned.
\<close>

record CombinedStreamsClient =
  conn :: "nat option"
  subscribers :: "string \<rightharpoonup> chan"
  reconnect :: bool
  done_closed :: bool
  batchSize :: int
  subscribedStreams :: "string list"
  readers :: nat

datatype go_error =
    NotConnected
  | DialFailed
  | WriteFailed
  | BatchFailed nat go_error

datatype go_panic =
    SliceBoundsOutOfRange
  | CloseOfClosedChannel
  | MakeChanSizeOutOfRange
  | IntegerDivideByZero

datatype log_event =
    LogParseFailed
  | LogChannelFull string

datatype close_event =
    ClosedDone
  | ClosedConn nat
  | ClosedChan string

definition NewCombinedStreamsClient :: "int \<Rightarrow> CombinedStreamsClient" where
  "NewCombinedStreamsClient n =
     \<lparr>conn = None, subscribers = Map.empty, reconnect = True, done_closed = False,
      batchSize = n, subscribedStreams = [], readers = 0\<rparr>"

text \<open>
  Connect, given what the dial returns (\<open>Some h\<close>: a fresh socket \<open>h\<close>). After a
  successful dial it starts a read loop (\<^verbatim>\<open>go c.readMessages()\<close>).
\<close>

definition Connect :: "CombinedStreamsClient \<Rightarrow> nat option \<Rightarrow> go_error option \<times> CombinedStreamsClient" where
  "Connect c dial =
     (case dial of
        None \<Rightarrow> (Some DialFailed, c)
      | Some h \<Rightarrow> (None, c\<lparr>conn := Some h, readers := readers c + 1\<rparr>))"

text \<open>The Go slice expression \<^verbatim>\<open>s[i:e]\<close> for \<open>0 \<le> i \<le> e \<le> len(s)\<close>.\<close>

definition slice :: "'a list \<Rightarrow> int \<Rightarrow> int \<Rightarrow> 'a list" where
  "slice xs i e = take (nat (e - i)) (drop (nat i) xs)"

text \<open>
  The loop of splitIntoBatches, from the index \<open>i\<close> with the batches collected so far.
  The loop need not end, so the function is partial: \<open>None\<close> stands for a run that does
  not return. A slice expression with \<open>end < i\<close> panics. Go's \<open>int\<close> is taken
  unbounded: \<open>i\<close> stays below the length of a slice in memory and \<open>i + batchSize\<close>
  cannot wrap for such a length.
\<close>

partial_function (option) splitIntoBatches_loop ::
  "string list \<Rightarrow> int \<Rightarrow> int \<Rightarrow> string list list \<Rightarrow> (go_panic + string list list) option" where
  "splitIntoBatches_loop symbols n i batches =
     (if i < int (length symbols)
      then (if (if i + n > int (length symbols) then int (length symbols) else i + n) < i
            then Some (Inl SliceBoundsOutOfRange)
            else splitIntoBatches_loop symbols n (i + n)
                   (batches @ [slice symbols i
                      (if i + n > int (length symbols) then int (length symbols) else i + n)]))
      else Some (Inr batches))"

definition splitIntoBatches :: "string list \<Rightarrow> int \<Rightarrow> (go_panic + string list list) option" where
  "splitIntoBatches symbols n = splitIntoBatches_loop symbols n 0 []"

text \<open>
  subscribeStreams: the streams are recorded before the frame is written, so a failed
  write leaves them recorded; with no connection nothing is recorded. \<open>write_ok\<close> is
  the outcome of \<^verbatim>\<open>conn.WriteJSON\<close>.
\<close>

definition subscribeStreams ::
  "CombinedStreamsClient \<Rightarrow> string list \<Rightarrow> bool \<Rightarrow> go_error option \<times> CombinedStreamsClient" where
  "subscribeStreams c streams write_ok =
     (if conn c = None then (Some NotConnected, c)
      else ((if write_ok then None else Some WriteFailed),
            c\<lparr>subscribedStreams := subscribedStreams c @ streams\<rparr>))"

text \<open>\<^verbatim>\<open>strings.ToLower\<close> on ASCII, and the stream key of a symbol.\<close>

definition lower_char :: "char \<Rightarrow> char" where
  "lower_char ch =
     (let k = (of_char ch :: nat) in if 65 \<le> k \<and> k \<le> 90 then char_of (k + 32) else ch)"

definition kline_stream :: "string \<Rightarrow> string \<Rightarrow> string" where
  "kline_stream interval symbol = map lower_char symbol @ ''@kline_'' @ interval"

text \<open>
  The loop of BatchSubscribeKlines over the batches, numbered from \<open>k\<close>; \<open>writes\<close>
  gives the outcome of each write in turn (a missing entry counts as success). It stops
  at the first batch whose subscription fails.
\<close>

fun subscribe_batches ::
  "CombinedStreamsClient \<Rightarrow> string \<Rightarrow> nat \<Rightarrow> string list list \<Rightarrow> bool list
     \<Rightarrow> go_error option \<times> CombinedStreamsClient" where
  "subscribe_batches c interval k [] writes = (None, c)"
| "subscribe_batches c interval k (batch # batches) writes =
     (case subscribeStreams c (map (kline_stream interval) batch)
             (case writes of [] \<Rightarrow> True | w # _ \<Rightarrow> w) of
        (Some err, c') \<Rightarrow> (Some (BatchFailed (k + 1) err), c')
      | (None, c') \<Rightarrow> subscribe_batches c' interval (k + 1) batches (tl writes))"

definition BatchSubscribeKlines ::
  "CombinedStreamsClient \<Rightarrow> string list \<Rightarrow> string \<Rightarrow> bool list
     \<Rightarrow> (go_panic + go_error option \<times> CombinedStreamsClient) option" where
  "BatchSubscribeKlines c symbols interval writes =
     (case splitIntoBatches symbols (batchSize c) of
        None \<Rightarrow> None
      | Some (Inl p) \<Rightarrow> Some (Inl p)
      | Some (Inr batches) \<Rightarrow> Some (Inr (subscribe_batches c interval 0 batches writes)))"

text \<open>
  AddSubscriber: \<^verbatim>\<open>make(chan []byte, bufferSize)\<close> panics on a negative size, and on a
  size whose buffer exceeds what the runtime can allocate: on amd64 an element (a slice
  header) takes 24 bytes, the channel header 96, and the limit is \<open>2\<^sup>4\<^sup>8\<close> bytes.
\<close>

definition AddSubscriber ::
  "CombinedStreamsClient \<Rightarrow> string \<Rightarrow> int \<Rightarrow> go_panic + CombinedStreamsClient" where
  "AddSubscriber c stream bufferSize =
     (if bufferSize < 0 \<or> 2 ^ 48 - 96 < 24 * bufferSize then Inl MakeChanSizeOutOfRange
      else Inr (c\<lparr>subscribers := (subscribers c)(stream \<mapsto> \<lparr>buf = [], cap = nat bufferSize\<rparr>)\<rparr>))"

text \<open>
  handleCombinedMessage, given what \<^verbatim>\<open>json.Unmarshal\<close> made of the message: \<open>None\<close>
  when it failed, else the frame's \<open>stream\<close> and raw \<open>data\<close>. The result is the client
  and what was logged.
\<close>

definition handleCombinedMessage ::
  "CombinedStreamsClient \<Rightarrow> (string \<times> string) option \<Rightarrow> CombinedStreamsClient \<times> log_event list" where
  "handleCombinedMessage c parsed =
     (case parsed of
        None \<Rightarrow> (c, [LogParseFailed])
      | Some (stream, data) \<Rightarrow>
          (case subscribers c stream of
             None \<Rightarrow> (c, [])
           | Some ch \<Rightarrow>
               if length (buf ch) < cap ch
               then (c\<lparr>subscribers := (subscribers c)(stream \<mapsto> ch\<lparr>buf := buf ch @ [data]\<rparr>)\<rparr>, [])
               else (c, [LogChannelFull stream])))"

text \<open>
  The stream set of handleReconnect: the map \<open>streamSet\<close> after the loop over the
  recorded streams, as an association list (an assignment to a key that is present
  overwrites its entry), and \<open>uniqueStreams\<close>, its keys in the order of the iteration.
  Go leaves the order of a map iteration open: \<open>rank\<close> gives each key its place in
  the iteration of this run (keys of equal rank come in the order of their insertion).
\<close>

definition streamSet_of :: "string list \<Rightarrow> (string \<times> bool) list" where
  "streamSet_of streams = foldl (\<lambda>streamSet stream. AList.update stream True streamSet) [] streams"

definition uniqueStreams_of :: "(string \<Rightarrow> nat) \<Rightarrow> (string \<times> bool) list \<Rightarrow> string list" where
  "uniqueStreams_of rank streamSet = sort_key rank (map fst streamSet)"

text \<open>
  The resubscription loop of handleReconnect, from the index \<open>i\<close>. \<open>written\<close> lists
  the SUBSCRIBE frames handed to \<^verbatim>\<open>conn.WriteJSON\<close> so far in this run, each with the
  outcome of its write; \<open>write_ok k\<close> is the outcome of the write number \<open>k\<close>. A failed
  write is logged and the loop goes on. After a successful write the log line divides by
  \<^verbatim>\<open>c.batchSize\<close>, which panics when it is 0; with a batch size of 0 and writes that
  keep failing the loop does not end. The result is the panic, if any, and the frames.
\<close>

definition batch_end :: "int \<Rightarrow> int \<Rightarrow> int \<Rightarrow> int" where
  "batch_end len n i = (if i + n > len then len else i + n)"

partial_function (option) resubscribe_loop ::
  "CombinedStreamsClient \<Rightarrow> string list \<Rightarrow> (nat \<Rightarrow> bool) \<Rightarrow> int \<Rightarrow> (string list \<times> bool) list
     \<Rightarrow> (go_panic option \<times> (string list \<times> bool) list) option" where
  "resubscribe_loop c uniqueStreams write_ok i written =
     (if i < int (length uniqueStreams)
      then (if batch_end (int (length uniqueStreams)) (batchSize c) i < i
            then Some (Some SliceBoundsOutOfRange, written)
            else if conn c = None
            then resubscribe_loop c uniqueStreams write_ok (i + batchSize c) written
            else if write_ok (length written)
            then (if batchSize c = 0
                  then Some (Some IntegerDivideByZero,
                             written @ [(slice uniqueStreams i
                                           (batch_end (int (length uniqueStreams)) (batchSize c) i),
                                         True)])
                  else resubscribe_loop c uniqueStreams write_ok (i + batchSize c)
                         (written @ [(slice uniqueStreams i
                                        (batch_end (int (length uniqueStreams)) (batchSize c) i),
                                      True)]))
            else resubscribe_loop c uniqueStreams write_ok (i + batchSize c)
                   (written @ [(slice uniqueStreams i
                                  (batch_end (int (length uniqueStreams)) (batchSize c) i),
                                False)]))
      else Some (None, written))"

text \<open>
  handleReconnect. \<open>dials k\<close> is the outcome of the dial attempt number \<open>k\<close>: after a
  failed dial the function starts itself again as a goroutine
  (\<^verbatim>\<open>go c.handleReconnect()\<close>) and returns, and that run is the recursive call here; a
  client whose dials all fail keeps dialling, and the result is \<open>None\<close>. After the
  resubscription it starts a read loop, the second one of the run: Connect has started
  one already. The result is the panic, if any, the client, and the frames handed to
  the socket.
\<close>

partial_function (option) handleReconnect ::
  "CombinedStreamsClient \<Rightarrow> (nat \<Rightarrow> nat option) \<Rightarrow> nat \<Rightarrow> (string \<Rightarrow> nat) \<Rightarrow> (nat \<Rightarrow> bool)
     \<Rightarrow> (go_panic option \<times> CombinedStreamsClient \<times> (string list \<times> bool) list) option" where
  "handleReconnect c dials k rank write_ok =
     (if \<not> reconnect c then Some (None, c, [])
      else if fst (Connect c (dials k)) \<noteq> None
      then handleReconnect (snd (Connect c (dials k))) dials (k + 1) rank write_ok
      else if uniqueStreams_of rank (streamSet_of (subscribedStreams (snd (Connect c (dials k))))) \<noteq> []
      then (case resubscribe_loop (snd (Connect c (dials k)))
                   (uniqueStreams_of rank
                      (streamSet_of (subscribedStreams (snd (Connect c (dials k))))))
                   write_ok 0 [] of
              None \<Rightarrow> None
            | Some (None, written) \<Rightarrow>
                Some (None, (snd (Connect c (dials k)))
                              \<lparr>readers := readers (snd (Connect c (dials k))) + 1\<rparr>, written)
            | Some (Some p, written) \<Rightarrow> Some (Some p, snd (Connect c (dials k)), written))
      else Some (None, (snd (Connect c (dials k)))
                         \<lparr>readers := readers (snd (Connect c (dials k))) + 1\<rparr>, []))"

text \<open>
  readMessages when its read fails: it calls handleReconnect and returns, which ends
  this read loop.
\<close>

definition readMessages_error ::
  "CombinedStreamsClient \<Rightarrow> (nat \<Rightarrow> nat option) \<Rightarrow> (string \<Rightarrow> nat) \<Rightarrow> (nat \<Rightarrow> bool)
     \<Rightarrow> (go_panic option \<times> CombinedStreamsClient \<times> (string list \<times> bool) list) option" where
  "readMessages_error c dials rank write_ok =
     (case handleReconnect c dials 0 rank write_ok of
        None \<Rightarrow> None
      | Some (None, c', written) \<Rightarrow> Some (None, c'\<lparr>readers := readers c' - 1\<rparr>, written)
      | Some (Some p, c', written) \<Rightarrow> Some (Some p, c', written))"

text \<open>
  A lost connection: the read of every running read loop fails. \<open>read_errors n\<close> lets
  \<open>n\<close> loops meet the error one after the other, each with the same outcomes of the
  dials and writes, and collects the frames of each run.
\<close>

fun read_errors ::
  "nat \<Rightarrow> CombinedStreamsClient \<Rightarrow> (nat \<Rightarrow> nat option) \<Rightarrow> (string \<Rightarrow> nat) \<Rightarrow> (nat \<Rightarrow> bool)
     \<Rightarrow> (go_panic option \<times> CombinedStreamsClient \<times> (string list \<times> bool) list list) option" where
  "read_errors 0 c dials rank write_ok = Some (None, c, [])"
| "read_errors (Suc n) c dials rank write_ok =
     (case readMessages_error c dials rank write_ok of
        None \<Rightarrow> None
      | Some (Some p, c', written) \<Rightarrow> Some (Some p, c', [written])
      | Some (None, c', written) \<Rightarrow>
          (case read_errors n c' dials rank write_ok of
             None \<Rightarrow> None
           | Some (p, c'', runs) \<Rightarrow> Some (p, c'', written # runs)))"

definition connection_lost ::
  "CombinedStreamsClient \<Rightarrow> (nat \<Rightarrow> nat option) \<Rightarrow> (string \<Rightarrow> nat) \<Rightarrow> (nat \<Rightarrow> bool)
     \<Rightarrow> (go_panic option \<times> CombinedStreamsClient \<times> (string list \<times> bool) list list) option" where
  "connection_lost c dials rank write_ok = read_errors (readers c) c dials rank write_ok"

text \<open>
  Close: \<^verbatim>\<open>close(c.done)\<close> comes first and panics on a closed channel. \<open>order\<close> is the
  iteration order of the subscriber map. The result is the client and the resources
  closed, in order.
\<close>

definition Close ::
  "CombinedStreamsClient \<Rightarrow> string list \<Rightarrow> go_panic + CombinedStreamsClient \<times> close_event list" where
  "Close c order =
     (if done_closed c then Inl CloseOfClosedChannel
      else Inr (c\<lparr>reconnect := False, done_closed := True, conn := None,
                  subscribers := (\<lambda>k. if k \<in> set order then None else subscribers c k)\<rparr>,
                [ClosedDone]
                @ (case conn c of None \<Rightarrow> [] | Some h \<Rightarrow> [ClosedConn h])
                @ map ClosedChan order))"




definition example_client :: CombinedStreamsClient where
  "example_client = snd (Connect (NewCombinedStreamsClient 10) (Some 1))"

section \<open>Reference quantities for the statistics\<close>

text \<open>
  What the claims speak of, as plain functions of the list of outcomes: the winning and
  losing trades, their totals and averages, the win rate, and a symbol's entry.
  \<open>symbol_totals\<close> is the entry while the loop runs, \<open>symbol_stats\<close> the entry at the
  end; \<open>running_totals\<close> is the invariant of the reconstruction loop.
\<close>

definition winning :: "TradeOutcome list \<Rightarrow> TradeOutcome list" where
  "winning ts = filter (\<lambda>t. 0 < PnL t) ts"

definition losing :: "TradeOutcome list \<Rightarrow> TradeOutcome list" where
  "losing ts = filter (\<lambda>t. PnL t < 0) ts"

definition total_pnl :: "TradeOutcome list \<Rightarrow> real" where
  "total_pnl ts = sum_list (map PnL ts)"

definition of_symbol :: "string \<Rightarrow> TradeOutcome list \<Rightarrow> TradeOutcome list" where
  "of_symbol s ts = filter (\<lambda>t. Symbol t = s) ts"

definition symbol_totals :: "string \<Rightarrow> TradeOutcome list \<Rightarrow> SymbolPerformance option" where
  "symbol_totals s ts =
     (if of_symbol s ts = [] then None
      else Some \<lparr>SymSymbol = s,
                 SymTotalTrades = int (length (of_symbol s ts)),
                 SymWinningTrades = int (length (winning (of_symbol s ts))),
                 SymLosingTrades = int (length (losing (of_symbol s ts))),
                 SymTotalPnL = total_pnl (of_symbol s ts),
                 SymAvgPnL = Fin 0, SymWinRate = Fin 0\<rparr>)"








section \<open>Reference quantities for the Sharpe ratio\<close>











section \<open>Properties of the reconstruction\<close>

lemmas recon_defs = analyze_symbol_def process_trade_def step_pos_def is_opening_def
  make_outcome_def record_outcome_def Position0_def analysis0_def default_leverage_def
  lower_side_def SymbolPerformance0_def Let_def

lemma RecentTrades_finalize [simp]:
  "RecentTrades (finalize_averages a) = RecentTrades a"
  "RecentTrades (profit_factor_step a) = RecentTrades a"
  "RecentTrades (sharpe_step a) = RecentTrades a"
  "RecentTrades (finalize_symbols a) = RecentTrades a"
  by (simp_all add: finalize_averages_def profit_factor_step_def sharpe_step_def
        finalize_symbols_def Let_def)

subsection \<open>Running totals and the derived ratios\<close>

lemmas totals_defs = winning_def losing_def total_pnl_def of_symbol_def symbol_totals_def



lemma Symbol_make_outcome [simp]: "Symbol (make_outcome symbol pos trade) = symbol"
  by (simp add: make_outcome_def Let_def)







lemma total_pnl_winning_nonneg: "0 \<le> total_pnl (winning ts)"
  by (induction ts) (auto simp: totals_defs)

lemma total_pnl_winning_pos: "winning ts \<noteq> [] \<Longrightarrow> 0 < total_pnl (winning ts)"
proof (induction ts)
  case Nil
  then show ?case by (simp add: winning_def)
next
  case (Cons t ts)
  have "0 \<le> total_pnl (winning ts)" by (rule total_pnl_winning_nonneg)
  with Cons show ?case by (auto simp: totals_defs split: if_splits)
qed


















subsection \<open>A closing fill on an empty accumulator\<close>

text \<open>
  Claim C9 says that a closing fill met first gives an outcome whose open price,
  position value and margin used are 0. The quantity of that outcome is 0, and the
  average open price is the quotient of the zero cost by it: 0/0, which is NaN in
  float64, and so are the position value, the margin used and the PnL percent.
\<close>

theorem closing_first_fill_counterexample:
  "map (\<lambda>t. (Quantity t, OpenPrice t, PositionValue t, MarginUsed t, PnLPct t))
     (RecentTrades (analyzePerformanceFromBinance
        [(''BTCUSDT'',
          [\<lparr>Side = ''SELL'', PositionSide = ''LONG'', Price = 110, Qty = 1,
             RealizedPnl = 10, Commission = 0.2, Time = 1000\<rparr>])]))
     = [(0, NaN, NaN, NaN, NaN)]
   \<and> \<not> (\<exists>t \<in> set (RecentTrades (analyzePerformanceFromBinance
        [(''BTCUSDT'',
          [\<lparr>Side = ''SELL'', PositionSide = ''LONG'', Price = 110, Qty = 1,
             RealizedPnl = 10, Commission = 0.2, Time = 1000\<rparr>])])).
          OpenPrice t = Fin 0 \<and> PositionValue t = Fin 0 \<and> MarginUsed t = Fin 0)"
  by (simp add: analyzePerformanceFromBinance_def recon_defs inf_of_sign_def)

text \<open>
  Claim C9, amended. When the first fill of a symbol and position side is a closing
  fill (of any quantity from -0.0001 up), the accumulator's quantity is at most 0.0001
  at once and an outcome is emitted, with quantity 0; its open price is the unguarded
  division 0/0, that is NaN, and its position value, margin used and PnL percent are NaN
  too. The accumulators are back at their zero state.
\<close>

theorem closing_first_fill_nan:
  assumes "PositionSide trade = ''LONG'' \<or> PositionSide trade = ''SHORT''"
    and "\<not> is_opening trade"
    and "- Qty trade \<le> 0.0001"
  shows "process_trade symbol (a, Position0, Position0) trade =
           (record_outcome a symbol
              \<lparr>Symbol = symbol, TradeSide = lower_side (PositionSide trade), Quantity = 0,
               Leverage = 5, OpenPrice = NaN, ClosePrice = Price trade,
               PositionValue = NaN, MarginUsed = NaN,
               PnL = RealizedPnl trade - Commission trade, PnLPct = NaN,
               Duration = Time trade * 1000000, OpenTime = 0, CloseTime = Time trade\<rparr>,
            Position0, Position0)
         \<and> RecentTrades (fst (process_trade symbol (a, Position0, Position0) trade)) =
             RecentTrades a
             @ [\<lparr>Symbol = symbol, TradeSide = lower_side (PositionSide trade), Quantity = 0,
                 Leverage = 5, OpenPrice = NaN, ClosePrice = Price trade,
                 PositionValue = NaN, MarginUsed = NaN,
                 PnL = RealizedPnl trade - Commission trade, PnLPct = NaN,
                 Duration = Time trade * 1000000, OpenTime = 0, CloseTime = Time trade\<rparr>]"
proof -
  have mk: "make_outcome symbol
       (Position0\<lparr>realizedPnl := realizedPnl Position0 + RealizedPnl trade,
                   commission := commission Position0 + Commission trade,
                   totalQty := totalQty Position0 - Qty trade,
                   tradeCount := tradeCount Position0 + 1\<rparr>) trade
     = \<lparr>Symbol = symbol, TradeSide = lower_side (PositionSide trade), Quantity = 0,
               Leverage = 5, OpenPrice = NaN, ClosePrice = Price trade,
               PositionValue = NaN, MarginUsed = NaN,
               PnL = RealizedPnl trade - Commission trade, PnLPct = NaN,
               Duration = Time trade * 1000000, OpenTime = 0, CloseTime = Time trade\<rparr>"
    by (simp add: make_outcome_def Position0_def Let_def inf_of_sign_def default_leverage_def)
  have st: "step_pos symbol a Position0 trade =
      (record_outcome a symbol (make_outcome symbol
       (Position0\<lparr>realizedPnl := realizedPnl Position0 + RealizedPnl trade,
                   commission := commission Position0 + Commission trade,
                   totalQty := totalQty Position0 - Qty trade,
                   tradeCount := tradeCount Position0 + 1\<rparr>) trade), Position0)"
    using assms(2,3) by (simp add: step_pos_def Let_def) (simp add: Position0_def)
  have rt: "RecentTrades (record_outcome a symbol outcome) = RecentTrades a @ [outcome]" for outcome
    by (simp add: record_outcome_def Let_def)
  show ?thesis
    using assms(1) unfolding process_trade_def by (auto simp: st mk rt)
qed

theorem closing_first_fill_nan_witness:
  "process_trade ''BTCUSDT'' (analysis0, Position0, Position0)
     \<lparr>Side = ''SELL'', PositionSide = ''LONG'', Price = 110, Qty = 1,
       RealizedPnl = 10, Commission = 0.2, Time = 1000\<rparr>
   = (record_outcome analysis0 ''BTCUSDT''
        \<lparr>Symbol = ''BTCUSDT'', TradeSide = ''long'', Quantity = 0,
         Leverage = 5, OpenPrice = NaN, ClosePrice = 110,
         PositionValue = NaN, MarginUsed = NaN,
         PnL = 9.8, PnLPct = NaN,
         Duration = 1000000000, OpenTime = 0, CloseTime = 1000\<rparr>,
      Position0, Position0)"
  using closing_first_fill_nan [of "\<lparr>Side = ''SELL'', PositionSide = ''LONG'', Price = 110, Qty = 1,
       RealizedPnl = 10, Commission = 0.2, Time = 1000\<rparr>" "''BTCUSDT''" analysis0]
  by (simp add: is_opening_def lower_side_def)

subsection \<open>The analysis in float64 arithmetic\<close>

text \<open>
  The facts that evaluate the rounding and the rounded analysis on given numbers, and
  two properties of every run: rounding keeps a number that is not negative so, and
  the reconstruction leaves the Sharpe ratio at 0 and gives every outcome the default
  leverage.
\<close>

lemmas r64_eval = r64_def expo_def expo_down.simps expo_up.simps pow2_def rne_def

lemmas float_rnd_defs = round_fin_def fadd_rnd_def fsub_rnd_def fmul_rnd_def fdiv_rnd_def
  fsqrt_rnd_def fsub_def

lemmas recon_rnd_defs = analyze_symbol_rnd_def process_trade_rnd_def step_pos_rnd_def
  record_outcome_rnd_def make_outcome_rnd_def is_opening_def Position0_def analysis0_def
  SymbolPerformance0_def default_leverage_def lower_side_def wrap64_def













lemma finalize_rnd_keeps:
  "RecentTrades (profit_factor_step_rnd rnd (finalize_averages_rnd rnd a)) = RecentTrades a"
  "SharpeRatio (profit_factor_step_rnd rnd (finalize_averages_rnd rnd a)) = SharpeRatio a"
  by (simp_all add: profit_factor_step_rnd_def finalize_averages_rnd_def Let_def)

lemma analyze_rnd_RecentTrades:
  "RecentTrades (analyzePerformanceFromBinance_rnd rnd h)
     = RecentTrades (reconstruct_rnd rnd analysis0 h)"
  by (simp add: analyzePerformanceFromBinance_rnd_def finalize_symbols_rnd_def
        sharpe_step_rnd_def finalize_rnd_keeps)


subsection \<open>The scenario of a long round trip\<close>

text \<open>
  Claim C3 gives the PnL percent of its scenario as 49.0. In float64 arithmetic, with
  the commission the float64 nearest to 0.2, the PnL percent of the one outcome is the
  float64 next above 49: the PnL is the float64 nearest to 9.8, its quotient by the
  margin 20 rounds to 0.49000000000000005, and the product of that with 100 rounds to
  49.00000000000001.
\<close>

theorem scenario_long_round_trip_counterexample:
  "map PnLPct (RecentTrades (analyzePerformanceFromBinance_rnd r64
     [(''BTCUSDT'',
       [\<lparr>Side = ''BUY'', PositionSide = ''LONG'', Price = 100, Qty = 1,
          RealizedPnl = 0, Commission = 0, Time = 1000\<rparr>,
        \<lparr>Side = ''SELL'', PositionSide = ''LONG'', Price = 110, Qty = 1,
          RealizedPnl = 10, Commission = r64 (2 / 10), Time = 61000\<rparr>])]))
     = [Fin (49 + 1 / 2 ^ 47)]
   \<and> map PnLPct (RecentTrades (analyzePerformanceFromBinance_rnd r64
     [(''BTCUSDT'',
       [\<lparr>Side = ''BUY'', PositionSide = ''LONG'', Price = 100, Qty = 1,
          RealizedPnl = 0, Commission = 0, Time = 1000\<rparr>,
        \<lparr>Side = ''SELL'', PositionSide = ''LONG'', Price = 110, Qty = 1,
          RealizedPnl = 10, Commission = r64 (2 / 10), Time = 61000\<rparr>])]))
     \<noteq> [Fin 49]"
  by (simp add: analyze_rnd_RecentTrades recon_rnd_defs float_rnd_defs Let_def r64_eval)

text \<open>
  Claim C3, amended. The fills [open LONG 1.0 at 100, close LONG 1.0 at 110 with
  realized PnL 10 and commission 0.2], with the default leverage 5, give exactly one
  TradeOutcome, with open price 100, close price 110, position value 100, margin used
  20, PnL the float64 nearest to 9.8, and PnL percent \<open>49 + 2\<^sup>-\<^sup>4\<^sup>7\<close>, which prints as
  49.00000000000001 (for any symbol and any two timestamps).
\<close>

theorem scenario_long_round_trip:
  "RecentTrades (analyzePerformanceFromBinance_rnd r64
     [(symbol,
       [\<lparr>Side = ''BUY'', PositionSide = ''LONG'', Price = 100, Qty = 1,
          RealizedPnl = 0, Commission = 0, Time = t0\<rparr>,
        \<lparr>Side = ''SELL'', PositionSide = ''LONG'', Price = 110, Qty = 1,
          RealizedPnl = 10, Commission = r64 (2 / 10), Time = t1\<rparr>])])
   = [\<lparr>Symbol = symbol, TradeSide = ''long'', Quantity = 1, Leverage = 5,
        OpenPrice = Fin 100, ClosePrice = 110, PositionValue = Fin 100,
        MarginUsed = Fin 20, PnL = r64 (98 / 10), PnLPct = Fin (49 + 1 / 2 ^ 47),
        Duration = wrap64 (wrap64 (t1 - t0) * 1000000), OpenTime = t0, CloseTime = t1\<rparr>]"
  by (simp add: analyze_rnd_RecentTrades recon_rnd_defs float_rnd_defs Let_def r64_eval)

theorem scenario_long_round_trip_witness:
  "RecentTrades (analyzePerformanceFromBinance_rnd r64
     [(''BTCUSDT'',
       [\<lparr>Side = ''BUY'', PositionSide = ''LONG'', Price = 100, Qty = 1,
          RealizedPnl = 0, Commission = 0, Time = 1000\<rparr>,
        \<lparr>Side = ''SELL'', PositionSide = ''LONG'', Price = 110, Qty = 1,
          RealizedPnl = 10, Commission = r64 (2 / 10), Time = 61000\<rparr>])])
   = [\<lparr>Symbol = ''BTCUSDT'', TradeSide = ''long'', Quantity = 1, Leverage = 5,
        OpenPrice = Fin 100, ClosePrice = 110, PositionValue = Fin 100,
        MarginUsed = Fin 20, PnL = 2758454771764429 / 281474976710656,
        PnLPct = Fin (6896136929411073 / 140737488355328),
        Duration = 60000000000, OpenTime = 1000, CloseTime = 61000\<rparr>]"
  using scenario_long_round_trip [of "''BTCUSDT''" 1000 61000]
  by (simp add: r64_eval wrap64_def)

subsection \<open>A position closed in two fills\<close>

text \<open>
  Claim C1 gives the margin of an outcome as quantity times average open price over the
  default leverage, the quantity being the one open before the final closing fill. A
  position of 2 bought at 100 and sold in two fills of 1 has the average open price 100
  and the quantity 1 before its last fill: a margin of 1 times 100 over 5, that is 20.
  The loop divides the whole cost of the cycle, 200, by the quantity open before the
  last fill, since a closing fill lowers the quantity and leaves the cost as it is. The
  outcome has the open price 200, the position value 200 and the margin 40, and the PnL
  10 is 25 percent of it in place of 50. (All numbers of this run are binary fractions:
  no operation rounds.)
\<close>

theorem partial_close_margin:
  "RecentTrades (analyzePerformanceFromBinance_rnd r64
     [(''BTCUSDT'',
       [\<lparr>Side = ''BUY'', PositionSide = ''LONG'', Price = 100, Qty = 2,
          RealizedPnl = 0, Commission = 0, Time = 1000\<rparr>,
        \<lparr>Side = ''SELL'', PositionSide = ''LONG'', Price = 105, Qty = 1,
          RealizedPnl = 5, Commission = 2.5, Time = 2000\<rparr>,
        \<lparr>Side = ''SELL'', PositionSide = ''LONG'', Price = 110, Qty = 1,
          RealizedPnl = 10, Commission = 2.5, Time = 61000\<rparr>])])
   = [\<lparr>Symbol = ''BTCUSDT'', TradeSide = ''long'', Quantity = 1, Leverage = 5,
        OpenPrice = Fin 200, ClosePrice = 110, PositionValue = Fin 200,
        MarginUsed = Fin 40, PnL = 10, PnLPct = Fin 25,
        Duration = 60000000000, OpenTime = 1000, CloseTime = 61000\<rparr>]"
  by (simp add: analyze_rnd_RecentTrades recon_rnd_defs float_rnd_defs Let_def r64_eval)

subsection \<open>The Sharpe ratio\<close>























section \<open>Properties of the combined-streams client\<close>

subsection \<open>Batching\<close>

text \<open>
  With a step of at least 1 the loop returns, from any index \<open>i \<ge> 0\<close>: it appends
  batches whose concatenation is the rest of the list, all non-empty and at most \<open>n\<close>
  long, all but the last exactly \<open>n\<close> long.
\<close>

lemma loop_batches:
  assumes n: "1 \<le> n"
  shows "0 \<le> i \<Longrightarrow> \<exists>bs. splitIntoBatches_loop symbols n i acc = Some (Inr (acc @ bs))
           \<and> concat bs = drop (nat i) symbols
           \<and> (\<forall>b \<in> set bs. b \<noteq> [] \<and> int (length b) \<le> n)
           \<and> (\<forall>b \<in> set (butlast bs). int (length b) = n)"
proof (induction "nat (int (length symbols) - i)" arbitrary: i acc rule: less_induct)
  case less
  show ?case
  proof (cases "i < int (length symbols)")
    case False
    then have "splitIntoBatches_loop symbols n i acc = Some (Inr (acc @ []))"
      by (subst splitIntoBatches_loop.simps) simp
    moreover from False have "drop (nat i) symbols = []" by simp
    ultimately show ?thesis by (intro exI [of _ "[]"]) simp
  next
    case True
    define e where "e = (if i + n > int (length symbols) then int (length symbols) else i + n)"
    have e: "i < e" "e \<le> int (length symbols)" "e \<le> i + n"
      using n True by (auto simp: e_def)
    have "nat (int (length symbols) - (i + n)) < nat (int (length symbols) - i)"
      using n True by linarith
    moreover have "0 \<le> i + n" using n less.prems by linarith
    ultimately obtain bs where bs:
      "splitIntoBatches_loop symbols n (i + n) ((acc @ [slice symbols i e])) = Some (Inr ((acc @ [slice symbols i e]) @ bs))"
      "concat bs = drop (nat (i + n)) symbols"
      "\<forall>b \<in> set bs. b \<noteq> [] \<and> int (length b) \<le> n"
      "\<forall>b \<in> set (butlast bs). int (length b) = n"
      using less.hyps [of "i + n" "acc @ [slice symbols i e]"] by blast
    have step: "splitIntoBatches_loop symbols n i acc = Some (Inr (acc @ slice symbols i e # bs))"
      using True e bs(1) by (subst splitIntoBatches_loop.simps) (simp add: e_def)
    have len: "int (length (slice symbols i e)) = e - i"
      using e less.prems by (simp add: slice_def)
    have cat: "slice symbols i e @ drop (nat (i + n)) symbols = drop (nat i) symbols"
    proof (cases "i + n > int (length symbols)")
      case True
      then have "e = int (length symbols)" by (simp add: e_def)
      with True less.prems show ?thesis by (simp add: slice_def)
    next
      case False
      then have "e = i + n" by (simp add: e_def)
      moreover have "nat (i + n) = nat n + nat i" using n less.prems by linarith
      moreover have "take (nat n) (drop (nat i) symbols) @ drop (nat n) (drop (nat i) symbols) = drop (nat i) symbols"
        by (rule append_take_drop_id)
      ultimately show ?thesis by (simp add: slice_def)
    qed
    have full: "bs \<noteq> [] \<Longrightarrow> e - i = n"
    proof -
      assume "bs \<noteq> []"
      with bs(3) have "concat bs \<noteq> []" by (cases bs) auto
      with bs(2) have "nat (i + n) < length symbols" by simp
      then show "e - i = n" by (simp add: e_def)
    qed
    show ?thesis
    proof (intro exI [of _ "slice symbols i e # bs"] conjI)
      show "splitIntoBatches_loop symbols n i acc = Some (Inr (acc @ slice symbols i e # bs))" by (rule step)
      show "concat (slice symbols i e # bs) = drop (nat i) symbols" using bs(2) cat by simp
      show "\<forall>b\<in>set (slice symbols i e # bs). b \<noteq> [] \<and> int (length b) \<le> n"
        using bs(3) len e by auto
      show "\<forall>b\<in>set (butlast (slice symbols i e # bs)). int (length b) = n"
        using bs(4) len full by auto
    qed
  qed
qed

lemma loop_zero_diverges_aux:
  assumes "splitIntoBatches_loop symbols n i acc = Some r"
  shows "\<not> (n = 0 \<and> i < int (length symbols))"
  by (rule splitIntoBatches_loop.raw_induct
        [where P = "\<lambda>symbols n i acc r. \<not> (n = 0 \<and> i < int (length symbols))", OF _ assms])
     (auto split: if_splits)

lemma loop_zero_diverges:
  "i < int (length symbols) \<Longrightarrow> splitIntoBatches_loop symbols 0 i acc = None"
  using loop_zero_diverges_aux [of symbols 0 i acc] by (cases "splitIntoBatches_loop symbols 0 i acc") auto

text \<open>
  Claim C10. For \<open>batchSize \<ge> 1\<close> splitIntoBatches returns on every list; the
  concatenation of the batches is the list and every batch but the last has exactly
  \<open>batchSize\<close> elements (none is empty or longer). For a non-empty list and
  \<open>batchSize = 0\<close> the loop does not return, and neither does BatchSubscribeKlines,
  which starts with it.
\<close>

theorem splitIntoBatches_partition_or_diverge:
  "(1 \<le> n \<longrightarrow>
      (\<exists>bs. splitIntoBatches symbols n = Some (Inr bs) \<and> concat bs = symbols
         \<and> (\<forall>b \<in> set (butlast bs). int (length b) = n)
         \<and> (\<forall>b \<in> set bs. b \<noteq> [] \<and> int (length b) \<le> n)))
   \<and> (symbols \<noteq> [] \<longrightarrow> splitIntoBatches symbols 0 = None)
   \<and> (symbols \<noteq> [] \<and> batchSize c = 0 \<longrightarrow>
        BatchSubscribeKlines c symbols interval writes = None)"
proof (intro conjI impI)
  assume "1 \<le> n"
  from loop_batches [OF this, of 0 symbols "[]"]
  show "\<exists>bs. splitIntoBatches symbols n = Some (Inr bs) \<and> concat bs = symbols
         \<and> (\<forall>b \<in> set (butlast bs). int (length b) = n)
         \<and> (\<forall>b \<in> set bs. b \<noteq> [] \<and> int (length b) \<le> n)"
    by (auto simp: splitIntoBatches_def)
next
  assume "symbols \<noteq> []"
  then show "splitIntoBatches symbols 0 = None"
    by (simp add: splitIntoBatches_def loop_zero_diverges)
next
  assume "symbols \<noteq> [] \<and> batchSize c = 0"
  then show "BatchSubscribeKlines c symbols interval writes = None"
    by (simp add: BatchSubscribeKlines_def splitIntoBatches_def loop_zero_diverges)
qed

theorem splitIntoBatches_partition_or_diverge_witness:
  "(\<exists>bs. splitIntoBatches [''A'', ''B'', ''C''] 2 = Some (Inr bs)
        \<and> bs = [[''A'', ''B''], [''C'']] \<and> concat bs = [''A'', ''B'', ''C''])
   \<and> splitIntoBatches [''A'', ''B'', ''C''] 0 = None
   \<and> BatchSubscribeKlines (NewCombinedStreamsClient 0) [''A'', ''B'', ''C''] ''1m'' [] = None"
  using splitIntoBatches_partition_or_diverge
    [of 2 "[''A'', ''B'', ''C'']" "NewCombinedStreamsClient 0" "''1m''" "[]"]
  by (simp add: NewCombinedStreamsClient_def splitIntoBatches_def
        splitIntoBatches_loop.simps [of _ 2] slice_def)

subsection \<open>Shutdown\<close>

text \<open>
  Claim C7 asks for an idempotent Close. On a client with a connection and one
  subscriber the first Close closes \<open>done\<close>, the socket and the subscriber's channel,
  each once; the second Close panics in \<^verbatim>\<open>close(c.done)\<close>, the channel being closed
  already.
\<close>

theorem Close_twice_panics:
  "(case AddSubscriber (snd (Connect (NewCombinedStreamsClient 10) (Some 1)))
           ''btcusdt@kline_1m'' 10 of
      Inl p \<Rightarrow> False
    | Inr c \<Rightarrow>
        (case Close c [''btcusdt@kline_1m''] of
           Inl p \<Rightarrow> False
         | Inr (c', evs) \<Rightarrow>
             evs = [ClosedDone, ClosedConn 1, ClosedChan ''btcusdt@kline_1m'']
             \<and> Close c' [] = Inl CloseOfClosedChannel))"
  by (simp add: AddSubscriber_def Connect_def NewCombinedStreamsClient_def Close_def)

subsection \<open>Dispatch\<close>

text \<open>
  Claim C8. For a decoded frame with the fields \<open>stream\<close> and \<open>data\<close>: with no
  subscriber under \<open>stream\<close> nothing changes and nothing is logged; with a subscriber
  whose channel has room, \<open>data\<close> is appended to that channel's queue; with a full
  channel nothing changes and the warning is logged. The channel of every other key is
  left as it was.
\<close>

theorem handleCombinedMessage_dispatch:
  "(case subscribers c stream of
      None \<Rightarrow> handleCombinedMessage c (Some (stream, data)) = (c, [])
    | Some ch \<Rightarrow>
        if length (buf ch) < cap ch
        then handleCombinedMessage c (Some (stream, data))
               = (c\<lparr>subscribers := (subscribers c)(stream \<mapsto> ch\<lparr>buf := buf ch @ [data]\<rparr>)\<rparr>, [])
        else handleCombinedMessage c (Some (stream, data)) = (c, [LogChannelFull stream]))
   \<and> (\<forall>k. k \<noteq> stream \<longrightarrow>
         subscribers (fst (handleCombinedMessage c (Some (stream, data)))) k = subscribers c k)"
  by (auto simp: handleCombinedMessage_def split: option.splits)

theorem handleCombinedMessage_dispatch_witness:
  "subscribers (fst (handleCombinedMessage
      \<lparr>conn = Some 1,
       subscribers = [''a'' \<mapsto> \<lparr>buf = [], cap = 1\<rparr>, ''b'' \<mapsto> \<lparr>buf = [''y''], cap = 1\<rparr>],
       reconnect = True, done_closed = False, batchSize = 10, subscribedStreams = [],
       readers = 1\<rparr>
      (Some (''a'', ''x'')))) ''a'' = Some \<lparr>buf = [''x''], cap = 1\<rparr>
   \<and> subscribers (fst (handleCombinedMessage
      \<lparr>conn = Some 1,
       subscribers = [''a'' \<mapsto> \<lparr>buf = [], cap = 1\<rparr>, ''b'' \<mapsto> \<lparr>buf = [''y''], cap = 1\<rparr>],
       reconnect = True, done_closed = False, batchSize = 10, subscribedStreams = [],
       readers = 1\<rparr>
      (Some (''a'', ''x'')))) ''b'' = Some \<lparr>buf = [''y''], cap = 1\<rparr>
   \<and> snd (handleCombinedMessage
      \<lparr>conn = Some 1,
       subscribers = [''a'' \<mapsto> \<lparr>buf = [], cap = 1\<rparr>, ''b'' \<mapsto> \<lparr>buf = [''y''], cap = 1\<rparr>],
       reconnect = True, done_closed = False, batchSize = 10, subscribedStreams = [],
       readers = 1\<rparr>
      (Some (''b'', ''x''))) = [LogChannelFull ''b'']"
  using handleCombinedMessage_dispatch
      [of "\<lparr>conn = Some 1,
       subscribers = [''a'' \<mapsto> \<lparr>buf = [], cap = 1\<rparr>, ''b'' \<mapsto> \<lparr>buf = [''y''], cap = 1\<rparr>],
       reconnect = True, done_closed = False, batchSize = 10, subscribedStreams = [],
       readers = 1\<rparr>"
          "''a''" "''x''"]
    handleCombinedMessage_dispatch
      [of "\<lparr>conn = Some 1,
       subscribers = [''a'' \<mapsto> \<lparr>buf = [], cap = 1\<rparr>, ''b'' \<mapsto> \<lparr>buf = [''y''], cap = 1\<rparr>],
       reconnect = True, done_closed = False, batchSize = 10, subscribedStreams = [],
       readers = 1\<rparr>"
          "''b''" "''x''"]
  by simp

subsection \<open>Reconnection\<close>





text \<open>With a batch size of 0 the first successful write ends in the panic of the log line.\<close>

lemma resubscribe_loop_zero:
  assumes "batchSize c = 0" and "conn c \<noteq> None" and "us \<noteq> []" and "write_ok 0"
  shows "resubscribe_loop c us write_ok 0 [] = Some (Some IntegerDivideByZero, [([], True)])"
  using assms by (subst resubscribe_loop.simps) (auto simp: batch_end_def slice_def)

lemma resubscribe_loop_zero_aux:
  assumes "resubscribe_loop c us write_ok i written = Some r"
  shows "\<not> (batchSize c = 0 \<and> conn c \<noteq> None \<and> i < int (length us) \<and> (\<forall>k. \<not> write_ok k))"
  by (rule resubscribe_loop.raw_induct
        [where P = "\<lambda>c us write_ok i written r.
            \<not> (batchSize c = 0 \<and> conn c \<noteq> None \<and> i < int (length us) \<and> (\<forall>k. \<not> write_ok k))",
         OF _ assms])
     (auto simp: batch_end_def split: if_splits, metis option.distinct(1))

lemma resubscribe_loop_zero_diverges:
  assumes "batchSize c = 0" and "conn c \<noteq> None" and "us \<noteq> []" and "\<forall>k. \<not> write_ok k"
  shows "resubscribe_loop c us write_ok 0 [] = None"
  using resubscribe_loop_zero_aux [of c us write_ok 0 "[]"] assms
  by (cases "resubscribe_loop c us write_ok 0 []") auto









lemmas client_eval = example_client_def Connect_def NewCombinedStreamsClient_def
  subscribeStreams_def connection_lost_def readMessages_error_def
  uniqueStreams_of_def streamSet_of_def batch_end_def slice_def


text \<open>
  Connect and handleReconnect each start a read loop, so the client comes out of a
  reconnection with two of them. When the connection is lost again, both run
  handleReconnect, and the recorded streams are written twice.
\<close>

lemma second_drop_replays_twice:
  "connection_lost
     (example_client\<lparr>conn := Some 2, subscribedStreams :=
        [''a@kline_1m'', ''b@kline_1m'', ''b@kline_1m'', ''c@kline_1m''], readers := 2\<rparr>)
     (\<lambda>k. Some 3) (\<lambda>stream. 0) (\<lambda>k. True)
   = Some (None,
           example_client\<lparr>conn := Some 3, subscribedStreams :=
             [''a@kline_1m'', ''b@kline_1m'', ''b@kline_1m'', ''c@kline_1m''], readers := 4\<rparr>,
           [[([''a@kline_1m'', ''b@kline_1m'', ''c@kline_1m''], True)],
            [([''a@kline_1m'', ''b@kline_1m'', ''c@kline_1m''], True)]])"
  by (simp add: client_eval numeral_2_eq_2 handleReconnect.simps [of _ "\<lambda>k. Some 3"]
        resubscribe_loop.simps [of _ _ "\<lambda>k. True"])

end
